theory Spec2Isabelle
  imports Main
begin

section \<open>Data model of the Okta authentication plugin\<close>

text \<open>
  The router of \<^verbatim>\<open>createAuthPluginRouter.ts\<close> (the revision with the logout endpoints)
  is embedded below. Library code (the plugin SDK, passport, openid-client) is not part of
  the repository: the functions the router calls are taken as fields of a record of
  collaborators: the theorems about the router hold for any such record, and the closed
  examples use a sample one.
\<close>

subsection \<open>Constants\<close>

definition OKTA_DEFAULT_TIMEOUT :: int where
  "OKTA_DEFAULT_TIMEOUT = 10000"

definition OKTA_DEFAULT_MAX_CLOCK_SKEW :: int where
  "OKTA_DEFAULT_MAX_CLOCK_SKEW = 120"

definition STRATEGY_NAME :: string where
  "STRATEGY_NAME = ''okta-oidc''"

definition DEFAULT_SCOPE :: string where
  "DEFAULT_SCOPE = ''openid profile email''"

subsection \<open>Values\<close>

text \<open>
  A parsed query parameter of express is a string, an array or a nested object; only a
  string passes the test \<^verbatim>\<open>typeof req.query.redirect === "string"\<close>.
\<close>

datatype qvalue = QString string | QArray "string list" | QObject "(string \<times> string) list"

text \<open>
  An error is either thrown by the router's own code (\<^verbatim>\<open>new Error(message)\<close>), a
  \<^verbatim>\<open>TypeError\<close> of the runtime, or whatever a library call failed with.
\<close>

datatype error = Error string | TypeError | LibError string

record TokenSet =
  id_token :: string
  access_token :: string

text \<open>
  The value under \<^verbatim>\<open>authPlugin.tokenSet\<close> of a user record is untyped in the source
  (\<^verbatim>\<open>req.user as any\<close>): it is the \<^verbatim>\<open>TokenSet\<close> instance that the verify callback put there,
  or, once the user record has been written to a session store and read back, a plain object
  with the same fields. Both are truthy.
\<close>

datatype tokenSetValue = TokenSetInstance TokenSet | PlainObject TokenSet

text \<open>The claims handed to the verify callback (\<^verbatim>\<open>profile: any\<close>).\<close>

record claims =
  sub :: "string option"
  name :: "string option"
  family_name :: "string option"
  given_name :: "string option"
  email :: "string option"

text \<open>\<^verbatim>\<open>passport.Profile\<close>, as the verify callback fills it.\<close>

record Profile =
  profile_id :: "string option"
  provider :: string
  displayName :: "string option"
  familyName :: "string option"
  givenName :: "string option"
  emails :: "string list"

text \<open>The token of the user resolver, and the record stored in the session:
  \<^verbatim>\<open>{...userToken, authPlugin: authPluginData}\<close>. Read back from a session, every part of
  it may be absent.\<close>

record AuthPluginData =
  authPlugin_key :: string
  tokenSet :: "tokenSetValue option"
  logoutUrl :: "string option"

record UserToken =
  user_id :: string

record User = UserToken +
  authPlugin :: "AuthPluginData option"

record Request =
  query :: "string \<Rightarrow> qvalue option"
  user :: "User option"

record AuthPluginConfig =
  key :: string
  explicitLogout :: bool

text \<open>
  \<^verbatim>\<open>AuthPluginRouterOptions\<close>. The three required strings are \<open>None\<close> when the caller
  left them out; the optional numbers are integers (the fallbacks below only test for
  \<open>0\<close> and for absence). The opaque handles \<^verbatim>\<open>authorizationApi\<close>, \<^verbatim>\<open>passport\<close> and
  \<^verbatim>\<open>sessionCookieOptions\<close> are represented by the record of collaborators.
\<close>

record AuthPluginRouterOptions =
  issuer :: "string option"
  clientId :: "string option"
  clientSecret :: "string option"
  externalUrl :: string
  authPluginRedirectUrl :: string
  authPluginConfig :: AuthPluginConfig
  timeout :: "int option"
  maxClockSkew :: "int option"
  scope :: "string option"

record IssuerMetadata =
  authorization_endpoint :: string
  end_session_endpoint :: string

record Client =
  client_id :: "string option"
  client_secret :: "string option"
  redirect_uris :: "string list"
  clock_tolerance :: int
  metadata :: IssuerMetadata

text \<open>
  The library functions the router calls:
  \<^item> \<^verbatim>\<open>getAbsoluteUrl(url, baseUrl?, optionalQueries?)\<close> of the plugin SDK;
  \<^item> \<^verbatim>\<open>createOrGetUserToken(authorizationApi, profile, source)\<close> of the plugin SDK;
  \<^item> \<^verbatim>\<open>Issuer.discover(url)\<close> of openid-client;
  \<^item> the code exchange the openid-client strategy performs on the callback request,
    giving the token set and the claims;
  \<^item> \<^verbatim>\<open>client.endSessionUrl({id_token_hint, post_logout_redirect_uri})\<close>, given the value
    that the handler passes as \<^verbatim>\<open>id_token_hint\<close>, whole.
\<close>

record Collaborators =
  getAbsoluteUrl :: "string \<Rightarrow> string option \<Rightarrow> (string \<times> string) list option \<Rightarrow> string"
  createOrGetUserToken :: "Profile \<Rightarrow> string \<Rightarrow> string + UserToken"
  discover :: "string \<Rightarrow> string + IssuerMetadata"
  exchangeCode :: "Request \<Rightarrow> string + (TokenSet \<times> claims option)"
  endSessionUrl :: "Client \<Rightarrow> tokenSetValue \<Rightarrow> string \<Rightarrow> string"

text \<open>The calls to collaborators that change or read state outside the router, in the
  order they are made.\<close>

datatype event =
    Discover string
  | PassportUse string
  | RouterGet string
  | CreateOrGetUserToken Profile string
  | EstablishSession User
  | DestroyMagdaSession

text \<open>
  What a handler answers:
  \<^item> \<open>Redirect url\<close>: \<^verbatim>\<open>res.redirect(url)\<close>;
  \<^item> \<open>AuthorizationRedirect name scope state\<close>: \<^verbatim>\<open>passport.authenticate(name, {scope, state})\<close>
    on the login request, which sends the browser to the provider's authorization endpoint;
  \<^item> \<open>RedirectOnSuccess state\<close>, \<open>RedirectOnError err state\<close>: the SDK functions of these
    names, called with \<^verbatim>\<open>req.query.state\<close>.
\<close>

datatype response =
    Redirect string
  | AuthorizationRedirect string string string
  | RedirectOnSuccess "qvalue option"
  | RedirectOnError error "qvalue option"

section \<open>The OpenID client\<close>

text \<open>
  \<^verbatim>\<open>options.issuer + (options.issuer.substr(options.issuer.length - 1) === "/" ? "" : "/")
    + ".well-known/openid-configuration"\<close>
  (\<^verbatim>\<open>substr\<close> of the empty string is the empty string).
\<close>

definition discoveryUrl :: "string \<Rightarrow> string" where
  "discoveryUrl iss =
     iss @ (if iss \<noteq> [] \<and> last iss = CHR ''/'' then [] else ''/'')
         @ ''.well-known/openid-configuration''"

text \<open>The timeout that \<^verbatim>\<open>Issuer[custom.http_options]\<close> sets on a request of the
  issuer: \<^verbatim>\<open>options?.timeout || OKTA_DEFAULT_TIMEOUT\<close>, on the router options.\<close>

definition issuer_http_options_timeout :: "AuthPluginRouterOptions \<Rightarrow> int" where
  "issuer_http_options_timeout options =
     (case timeout options of
        Some t \<Rightarrow> if t \<noteq> 0 then t else OKTA_DEFAULT_TIMEOUT
      | None \<Rightarrow> OKTA_DEFAULT_TIMEOUT)"

text \<open>The timeout that \<^verbatim>\<open>client[custom.http_options]\<close> sets on a request of the
  client: \<^verbatim>\<open>options.timeout || OKTA_DEFAULT_TIMEOUT\<close>, where \<^verbatim>\<open>options\<close> is the hook's own
  parameter (the request's HTTP options), which shadows the router options.\<close>

definition client_http_options_timeout :: "int option \<Rightarrow> int" where
  "client_http_options_timeout request_timeout =
     (case request_timeout of
        Some t \<Rightarrow> if t \<noteq> 0 then t else OKTA_DEFAULT_TIMEOUT
      | None \<Rightarrow> OKTA_DEFAULT_TIMEOUT)"

text \<open>\<^verbatim>\<open>typeof options?.maxClockSkew === "undefined" ? OKTA_DEFAULT_MAX_CLOCK_SKEW
  : options.maxClockSkew\<close>\<close>

definition clockTolerance :: "AuthPluginRouterOptions \<Rightarrow> int" where
  "clockTolerance options =
     (case maxClockSkew options of
        None \<Rightarrow> OKTA_DEFAULT_MAX_CLOCK_SKEW
      | Some s \<Rightarrow> s)"

text \<open>
  \<^verbatim>\<open>createOpenIdClient\<close>: the discovery document is fetched, then the client is built with
  the one redirect URI. Reading \<^verbatim>\<open>options.issuer.substr\<close> of an absent issuer is a
  \<^verbatim>\<open>TypeError\<close>; a failed discovery rejects with the library's error.
\<close>

definition createOpenIdClient ::
  "Collaborators \<Rightarrow> AuthPluginRouterOptions \<Rightarrow> event list \<times> (error + Client)" where
  "createOpenIdClient sdk options =
     (let loginBaseUrl = getAbsoluteUrl sdk ''/auth/login/plugin'' (Some (externalUrl options)) None
      in case issuer options of
           None \<Rightarrow> ([], Inl TypeError)
         | Some iss_url \<Rightarrow>
             (case discover sdk (discoveryUrl iss_url) of
                Inl e \<Rightarrow> ([Discover (discoveryUrl iss_url)], Inl (LibError e))
              | Inr iss \<Rightarrow>
                  ([Discover (discoveryUrl iss_url)],
                   Inr \<lparr> client_id = clientId options,
                         client_secret = clientSecret options,
                         redirect_uris = [getAbsoluteUrl sdk ''/okta/return'' (Some loginBaseUrl) None],
                         clock_tolerance = clockTolerance options,
                         metadata = iss \<rparr>)))"

section \<open>The router\<close>

text \<open>
  \<^verbatim>\<open>determineRedirectUrl(req, authPluginRedirectUrl, externalUrl?)\<close>: the \<^verbatim>\<open>redirect\<close> query
  parameter when it is a non-empty string, the configured URL otherwise, each passed through
  \<^verbatim>\<open>getAbsoluteUrl\<close> with the base URL the caller gave, or with none.
\<close>

definition determineRedirectUrl ::
  "Collaborators \<Rightarrow> Request \<Rightarrow> string \<Rightarrow> string option \<Rightarrow> string" where
  "determineRedirectUrl sdk req authPluginRedirectUrl' externalUrl' =
     (let resultRedirectionUrl = getAbsoluteUrl sdk authPluginRedirectUrl' externalUrl' None
      in case query req ''redirect'' of
           Some (QString r) \<Rightarrow>
             if r \<noteq> [] then getAbsoluteUrl sdk r externalUrl' None else resultRedirectionUrl
         | _ \<Rightarrow> resultRedirectionUrl)"

text \<open>\<^verbatim>\<open>options.scope ? options.scope : DEFAULT_SCOPE\<close>\<close>

definition scopeOf :: "AuthPluginRouterOptions \<Rightarrow> string" where
  "scopeOf options =
     (case scope options of
        Some s \<Rightarrow> if s \<noteq> [] then s else DEFAULT_SCOPE
      | None \<Rightarrow> DEFAULT_SCOPE)"

text \<open>
  The verify callback of the strategy. It returns the collaborator calls it made and what it
  hands to \<^verbatim>\<open>done\<close>: an error, or the user record.
\<close>

definition verify ::
  "Collaborators \<Rightarrow> AuthPluginRouterOptions \<Rightarrow> TokenSet \<Rightarrow> claims option
     \<Rightarrow> event list \<times> (error + User)" where
  "verify sdk options ts profile =
     (let no_email = ([], Inl (Error ''Cannot locate email address from the user profile.''));
          cfg = authPluginConfig options
      in case profile of
           None \<Rightarrow> no_email
         | Some p \<Rightarrow>
             (case email p of
                None \<Rightarrow> no_email
              | Some e \<Rightarrow>
                  if e = [] then no_email
                  else
                    (let userData = \<lparr> profile_id = sub p,
                                       provider = key cfg,
                                       displayName = name p,
                                       familyName = family_name p,
                                       givenName = given_name p,
                                       emails = [e] \<rparr>
                     in case createOrGetUserToken sdk userData (key cfg) of
                          Inl err \<Rightarrow> ([CreateOrGetUserToken userData (key cfg)], Inl (LibError err))
                        | Inr userToken \<Rightarrow>
                            (let authPluginData = \<lparr> authPlugin_key = key cfg,
                                                     tokenSet = Some (TokenSetInstance ts),
                                                     logoutUrl = None \<rparr>;
                                 authPluginData' =
                                   (if explicitLogout cfg
                                    then authPluginData
                                           \<lparr> logoutUrl := Some (''/auth/plugin/'' @ key cfg @ ''/logout'') \<rparr>
                                    else authPluginData)
                             in ([CreateOrGetUserToken userData (key cfg)],
                                 Inr \<lparr> user_id = user_id userToken,
                                       authPlugin = Some authPluginData' \<rparr>)))))"

text \<open>
  \<^verbatim>\<open>passport.authenticate(STRATEGY_NAME, {failWithError: true})\<close> on the callback request,
  by the contract of passport and of the openid-client strategy: the strategy exchanges the
  code, calls the verify callback with the token set and the claims, and passport logs the
  user in (establishing the session) only with the user record that the callback handed to
  \<^verbatim>\<open>done\<close>; an error goes to the error handler and leaves the session as it was.
  The result is the session's user afterwards, the calls made, and the outcome.
\<close>

definition passport_authenticate ::
  "Collaborators \<Rightarrow> AuthPluginRouterOptions \<Rightarrow> Request
     \<Rightarrow> User option \<times> event list \<times> (error + User)" where
  "passport_authenticate sdk options req =
     (case exchangeCode sdk req of
        Inl e \<Rightarrow> (user req, [], Inl (LibError e))
      | Inr (ts, profile) \<Rightarrow>
          (case verify sdk options ts profile of
             (evs, Inl e) \<Rightarrow> (user req, evs, Inl e)
           | (evs, Inr u) \<Rightarrow> (Some u, evs @ [EstablishSession u], Inr u)))"

text \<open>
  The four handlers. Each returns the session's user after the request, the collaborator
  calls in order, and the response.
\<close>

text \<open>\<^verbatim>\<open>router.get("/")\<close>\<close>

definition get_root ::
  "Collaborators \<Rightarrow> AuthPluginRouterOptions \<Rightarrow> Request
     \<Rightarrow> User option \<times> event list \<times> response" where
  "get_root sdk options req =
     (user req, [],
      AuthorizationRedirect STRATEGY_NAME (scopeOf options)
        (determineRedirectUrl sdk req (authPluginRedirectUrl options) (Some (externalUrl options))))"

text \<open>\<^verbatim>\<open>router.get("/return")\<close>: the authentication, then the success handler or the error
  handler, both called with \<^verbatim>\<open>req.query.state\<close>.\<close>

definition get_return ::
  "Collaborators \<Rightarrow> AuthPluginRouterOptions \<Rightarrow> Request
     \<Rightarrow> User option \<times> event list \<times> response" where
  "get_return sdk options req =
     (case passport_authenticate sdk options req of
        (session, evs, Inr u) \<Rightarrow> (session, evs, RedirectOnSuccess (query req ''state''))
      | (session, evs, Inl err) \<Rightarrow> (session, evs, RedirectOnError err (query req ''state'')))"

text \<open>\<^verbatim>\<open>(req?.user as any)?.authPlugin?.tokenSet\<close>\<close>

definition sessionTokenSet :: "Request \<Rightarrow> tokenSetValue option" where
  "sessionTokenSet req =
     (case user req of
        None \<Rightarrow> None
      | Some u \<Rightarrow> (case authPlugin u of None \<Rightarrow> None | Some ap \<Rightarrow> tokenSet ap))"

text \<open>
  \<^verbatim>\<open>destroyMagdaSession(req, res, sessionCookieOptions)\<close> of the plugin SDK, by its contract
  (``safe to call even when session doesn't exist''): afterwards there is no session.
\<close>

definition destroyMagdaSession :: "User option \<Rightarrow> User option \<times> event list" where
  "destroyMagdaSession session = (None, [DestroyMagdaSession])"

text \<open>\<^verbatim>\<open>router.get("/logout")\<close>: the token set is read, the session is destroyed, then the
  redirect is chosen.\<close>

definition get_logout ::
  "Collaborators \<Rightarrow> AuthPluginRouterOptions \<Rightarrow> Client \<Rightarrow> Request
     \<Rightarrow> User option \<times> event list \<times> response" where
  "get_logout sdk options client req =
     (let tokenSet' = sessionTokenSet req;
          (session, evs) = destroyMagdaSession (user req)
      in (session, evs,
          (case tokenSet' of
             None \<Rightarrow>
               Redirect (determineRedirectUrl sdk req (authPluginRedirectUrl options)
                           (Some (externalUrl options)))
           | Some ts \<Rightarrow>
               (let redirectUrl = determineRedirectUrl sdk req (authPluginRedirectUrl options) None
                in Redirect
                     (endSessionUrl sdk client ts
                        (getAbsoluteUrl sdk
                           (''/auth/plugin/'' @ key (authPluginConfig options) @ ''/logout/return'')
                           (Some (externalUrl options))
                           (Some [(''redirect'', redirectUrl)])))))))"

text \<open>\<^verbatim>\<open>router.get("/logout/return")\<close>: the session is destroyed only if the request has a
  user.\<close>

definition get_logout_return ::
  "Collaborators \<Rightarrow> AuthPluginRouterOptions \<Rightarrow> Request
     \<Rightarrow> User option \<times> event list \<times> response" where
  "get_logout_return sdk options req =
     (let (session, evs) = (case user req of
                              Some u \<Rightarrow> destroyMagdaSession (user req)
                            | None \<Rightarrow> (user req, []))
      in (session, evs,
          Redirect (determineRedirectUrl sdk req (authPluginRedirectUrl options)
                      (Some (externalUrl options)))))"

text \<open>
  \<^verbatim>\<open>createAuthPluginRouter\<close>: the three checks, the client, the strategy, the four routes.
  (An issuer of the declared type is a string whenever it is present, so the test
  \<^verbatim>\<open>typeof options.issuer !== "string"\<close> adds nothing to the test for emptiness.)
  The result is the calls made and either the error thrown or the router, given by its
  client and the paths registered on it.
\<close>

record Router =
  router_client :: Client
  routes :: "string list"

definition createAuthPluginRouter ::
  "Collaborators \<Rightarrow> AuthPluginRouterOptions \<Rightarrow> event list \<times> (error + Router)" where
  "createAuthPluginRouter sdk options =
     (if clientId options = None \<or> clientId options = Some []
      then ([], Inl (Error ''Required client id can't be empty!''))
      else if clientSecret options = None \<or> clientSecret options = Some []
      then ([], Inl (Error ''Required client secret can't be empty!''))
      else if issuer options = None \<or> issuer options = Some []
      then ([], Inl (Error
              ''Required issuer url (options.issuer) can't be empty and must be a string!''))
      else
        (case createOpenIdClient sdk options of
           (evs, Inl e) \<Rightarrow> (evs, Inl e)
         | (evs, Inr client) \<Rightarrow>
             (evs @ [PassportUse STRATEGY_NAME,
                     RouterGet ''/'', RouterGet ''/return'',
                     RouterGet ''/logout'', RouterGet ''/logout/return''],
              Inr \<lparr> router_client = client,
                    routes = [''/'', ''/return'', ''/logout'', ''/logout/return''] \<rparr>)))"

section \<open>The earlier revision of the discovery call\<close>

text \<open>
  The earlier revision of \<^verbatim>\<open>createOpenIdClient\<close> (\<^verbatim>\<open>src/createAuthPluginRouter.ts\<close>, the file
  without the logout endpoints) builds the discovery URL as
  \<^verbatim>\<open>options.issuer + "/.well-known/openid-configuration"\<close>.
\<close>

definition discoveryUrl_early :: "string \<Rightarrow> string" where
  "discoveryUrl_early iss = iss @ ''/.well-known/openid-configuration''"

section \<open>The rules of the specification\<close>

text \<open>
  The destination rule in the specification's words: the \<^verbatim>\<open>redirect\<close> parameter, if present
  as a non-empty string, resolved against the base URL; otherwise the configured default
  resolved against the base URL.
\<close>

definition spec_destination ::
  "(string \<Rightarrow> string option \<Rightarrow> (string \<times> string) list option \<Rightarrow> string)
     \<Rightarrow> qvalue option \<Rightarrow> string \<Rightarrow> string option \<Rightarrow> string" where
  "spec_destination resolve redirect default_destination base =
     (case redirect of
        Some (QString r) \<Rightarrow>
          if r = [] then resolve default_destination base None else resolve r base None
      | Some (QArray rs) \<Rightarrow> resolve default_destination base None
      | Some (QObject kvs) \<Rightarrow> resolve default_destination base None
      | None \<Rightarrow> resolve default_destination base None)"

text \<open>Claims that lack a non-empty email.\<close>

definition lacksEmail :: "claims option \<Rightarrow> bool" where
  "lacksEmail profile =
     (case profile of
        None \<Rightarrow> True
      | Some p \<Rightarrow> (case email p of None \<Rightarrow> True | Some e \<Rightarrow> e = []))"

text \<open>A required configuration value that is missing or empty.\<close>

definition missingOrEmpty :: "string option \<Rightarrow> bool" where
  "missingOrEmpty v = (case v of None \<Rightarrow> True | Some s \<Rightarrow> s = [])"

section \<open>Closed inputs for the examples\<close>

text \<open>
  A resolver for the examples, after the comment on \<^verbatim>\<open>determineRedirectUrl\<close> (with a base
  URL a path is made absolute, without one it is left as it is): a path starting with
  \<^verbatim>\<open>/\<close> is appended to the base URL, and the optional queries are appended as a query
  string.
\<close>

definition sample_getAbsoluteUrl ::
  "string \<Rightarrow> string option \<Rightarrow> (string \<times> string) list option \<Rightarrow> string" where
  "sample_getAbsoluteUrl url base queries =
     (case base of
        Some b \<Rightarrow> if take 1 url = ''/'' then b @ url else url
      | None \<Rightarrow> url)
     @ (case queries of
          None \<Rightarrow> []
        | Some kvs \<Rightarrow> concat (map (\<lambda>(k, v). ''?'' @ k @ ''='' @ v) kvs))"

definition sample_tokenSet :: TokenSet where
  "sample_tokenSet = \<lparr> id_token = ''idt'', access_token = ''act'' \<rparr>"

definition sample_claims :: claims where
  "sample_claims = \<lparr> sub = Some ''00u1'', name = Some ''Ada L'', family_name = Some ''L'',
                      given_name = Some ''Ada'', email = Some ''a@b.com'' \<rparr>"

definition sample_metadata :: IssuerMetadata where
  "sample_metadata = \<lparr> authorization_endpoint = ''https://idp.example/authorize'',
                        end_session_endpoint = ''https://idp.example/logout'' \<rparr>"

text \<open>
  An end-session URL for the examples, after \<^verbatim>\<open>endSessionUrl\<close> of openid-client: only a hint
  that is a \<^verbatim>\<open>TokenSet\<close> instance is replaced by its \<^verbatim>\<open>id_token\<close>; a plain object is put
  into the query string as it is, where it has no text.
\<close>

definition sample_endSessionUrl :: "Client \<Rightarrow> tokenSetValue \<Rightarrow> string \<Rightarrow> string" where
  "sample_endSessionUrl client hint uri =
     end_session_endpoint (metadata client)
       @ ''?id_token_hint=''
       @ (case hint of TokenSetInstance ts \<Rightarrow> id_token ts | PlainObject obj \<Rightarrow> [])
       @ ''&post_logout_redirect_uri='' @ uri"

definition sample_sdk :: Collaborators where
  "sample_sdk =
     \<lparr> getAbsoluteUrl = sample_getAbsoluteUrl,
       createOrGetUserToken = (\<lambda>profile source. Inr \<lparr> user_id = ''u-1'' \<rparr>),
       discover = (\<lambda>url. Inr sample_metadata),
       exchangeCode = (\<lambda>req. Inr (sample_tokenSet, Some sample_claims)),
       endSessionUrl = sample_endSessionUrl \<rparr>"

definition sample_options :: AuthPluginRouterOptions where
  "sample_options =
     \<lparr> issuer = Some ''https://dev-1.okta.com/oauth2/default'',
       clientId = Some ''cid'',
       clientSecret = Some ''secret'',
       externalUrl = ''https://example.org'',
       authPluginRedirectUrl = ''/sign-in-redirect'',
       authPluginConfig = \<lparr> key = ''okta'', explicitLogout = True \<rparr>,
       timeout = None,
       maxClockSkew = None,
       scope = None \<rparr>"

definition sample_client :: Client where
  "sample_client =
     \<lparr> client_id = Some ''cid'',
       client_secret = Some ''secret'',
       redirect_uris = [''https://example.org/auth/login/plugin/okta/return''],
       clock_tolerance = 120,
       metadata = sample_metadata \<rparr>"

definition sample_user :: User where
  "sample_user =
     \<lparr> user_id = ''u-1'',
       authPlugin = Some \<lparr> authPlugin_key = ''okta'',
                            tokenSet = Some (TokenSetInstance sample_tokenSet),
                            logoutUrl = Some ''/auth/plugin/okta/logout'' \<rparr> \<rparr>"

definition sample_user_implicit :: User where
  "sample_user_implicit =
     \<lparr> user_id = ''u-1'',
       authPlugin = Some \<lparr> authPlugin_key = ''okta'',
                            tokenSet = Some (TokenSetInstance sample_tokenSet),
                            logoutUrl = None \<rparr> \<rparr>"

text \<open>The user record of \<open>sample_user\<close> as a session store gives it back.\<close>

definition sample_stored_user :: User where
  "sample_stored_user =
     \<lparr> user_id = ''u-1'',
       authPlugin = Some \<lparr> authPlugin_key = ''okta'',
                            tokenSet = Some (PlainObject sample_tokenSet),
                            logoutUrl = Some ''/auth/plugin/okta/logout'' \<rparr> \<rparr>"

text \<open>A request with \<^verbatim>\<open>?redirect=/dashboard\<close>: without a session, with a user record that
  holds the \<^verbatim>\<open>TokenSet\<close> instance, and with the user record read back from the store.\<close>

definition sample_request :: Request where
  "sample_request = \<lparr> query = [''redirect'' \<mapsto> QString ''/dashboard''], user = None \<rparr>"

definition sample_session_request :: Request where
  "sample_session_request =
     \<lparr> query = [''redirect'' \<mapsto> QString ''/dashboard''], user = Some sample_user \<rparr>"

definition sample_stored_request :: Request where
  "sample_stored_request =
     \<lparr> query = [''redirect'' \<mapsto> QString ''/dashboard''], user = Some sample_stored_user \<rparr>"

section \<open>Facts about the OpenID client\<close>

lemmas sample_defs = sample_sdk_def sample_options_def sample_client_def sample_user_def
  sample_user_implicit_def sample_stored_user_def sample_stored_request_def
  sample_endSessionUrl_def
  sample_request_def sample_session_request_def sample_getAbsoluteUrl_def sample_tokenSet_def
  sample_claims_def sample_metadata_def

text \<open>The revision with the logout endpoints removes one trailing slash of the issuer
  before it appends the path, so that an issuer gives the same URL with and without it.\<close>

lemma discoveryUrl_normalised:
  "discoveryUrl iss =
     (if iss \<noteq> [] \<and> last iss = CHR ''/'' then butlast iss else iss)
       @ ''/.well-known/openid-configuration''"
  by (cases iss rule: rev_cases) (simp_all add: discoveryUrl_def)

lemma discoveryUrl_trailing_slash:
  "discoveryUrl (base @ ''/'') = base @ ''/.well-known/openid-configuration''"
  by (simp add: discoveryUrl_def)

lemma createOpenIdClient_events:
  "issuer options = Some iss \<Longrightarrow>
     fst (createOpenIdClient sdk options) = [Discover (discoveryUrl iss)]"
  by (simp add: createOpenIdClient_def Let_def split: sum.splits)

lemma createOpenIdClient_Inr:
  assumes "createOpenIdClient sdk options = (evs, Inr client)"
  shows "client_id client = clientId options"
    and "client_secret client = clientSecret options"
    and "redirect_uris client =
           [getAbsoluteUrl sdk ''/okta/return''
              (Some (getAbsoluteUrl sdk ''/auth/login/plugin'' (Some (externalUrl options)) None))
              None]"
    and "clock_tolerance client = clockTolerance options"
  using assms
  by (auto simp: createOpenIdClient_def Let_def split: option.splits sum.splits)

lemma createOpenIdClient_no_Error:
  "createOpenIdClient sdk options \<noteq> (evs, Inl (Error msg))"
  by (auto simp: createOpenIdClient_def Let_def split: option.splits sum.splits)

text \<open>
  Claim C7. Discovery fetches \<^verbatim>\<open><issuer>/.well-known/openid-configuration\<close> with exactly
  one \<^verbatim>\<open>/\<close> between the issuer and the path, whether or not the issuer ends with a slash.
  The revision with the logout endpoints does so (\<open>discoveryUrl_normalised\<close>); the earlier
  revision appends \<^verbatim>\<open>/.well-known/openid-configuration\<close> to the issuer as it is, and an
  issuer that ends with a slash gives two slashes.
\<close>

theorem discoveryUrl_early_trailing_slash:
  "discoveryUrl_early ''https://dev-1.okta.com/oauth2/default/''
     = ''https://dev-1.okta.com/oauth2/default//.well-known/openid-configuration''"
  by (simp add: discoveryUrl_early_def)

text \<open>
  Claim C10. The two optional numbers are defaulted differently: the clock tolerance of the
  client is the configured \<^verbatim>\<open>maxClockSkew\<close> whenever one is given, \<open>0\<close> included, and
  \<open>120\<close> only when it is absent; the timeout set on the issuer's requests is the configured
  \<^verbatim>\<open>timeout\<close> unless it is absent or \<open>0\<close>, and \<open>10000\<close> in both of these cases. (The hook
  of the client falls back in the same way, on the timeout of the request's own options.)
\<close>

theorem numeric_defaults_asymmetric:
  assumes "createOpenIdClient sdk options = (evs, Inr client)"
  shows "clock_tolerance client = (case maxClockSkew options of None \<Rightarrow> 120 | Some s \<Rightarrow> s)
       \<and> issuer_http_options_timeout options
           = (case timeout options of None \<Rightarrow> 10000 | Some t \<Rightarrow> if t = 0 then 10000 else t)
       \<and> client_http_options_timeout (Some 0) = 10000
       \<and> client_http_options_timeout None = 10000"
  using createOpenIdClient_Inr(4)[OF assms]
  by (simp add: clockTolerance_def issuer_http_options_timeout_def client_http_options_timeout_def
        OKTA_DEFAULT_TIMEOUT_def OKTA_DEFAULT_MAX_CLOCK_SKEW_def split: option.splits)

theorem numeric_defaults_asymmetric_witness:
  "createOpenIdClient sample_sdk (sample_options\<lparr>timeout := Some 0, maxClockSkew := Some 0\<rparr>)
     = ([Discover ''https://dev-1.okta.com/oauth2/default/.well-known/openid-configuration''],
        Inr (sample_client\<lparr>clock_tolerance := 0\<rparr>))
   \<and> clock_tolerance (sample_client\<lparr>clock_tolerance := 0\<rparr>) = 0
   \<and> issuer_http_options_timeout (sample_options\<lparr>timeout := Some 0, maxClockSkew := Some 0\<rparr>)
       = 10000"
proof -
  have created:
    "createOpenIdClient sample_sdk (sample_options\<lparr>timeout := Some 0, maxClockSkew := Some 0\<rparr>)
       = ([Discover ''https://dev-1.okta.com/oauth2/default/.well-known/openid-configuration''],
          Inr (sample_client\<lparr>clock_tolerance := 0\<rparr>))"
    by (simp add: createOpenIdClient_def sample_defs discoveryUrl_def clockTolerance_def)
  from numeric_defaults_asymmetric [OF created] created show ?thesis
    by (simp add: sample_options_def)
qed

section \<open>Construction of the router\<close>

text \<open>
  Claim C8. If the client id, the client secret or the issuer URL is missing or empty, the
  construction of the router throws an error before anything else happens: no discovery, no
  strategy and no route is registered. With all three present it throws no error of its
  own (only the discovery can still fail).
\<close>

theorem configuration_error_iff_missing:
  "(missingOrEmpty (clientId options) \<or> missingOrEmpty (clientSecret options)
      \<or> missingOrEmpty (issuer options)
     \<longrightarrow> (\<exists>msg. createAuthPluginRouter sdk options = ([], Inl (Error msg))))
   \<and> (\<not> (missingOrEmpty (clientId options) \<or> missingOrEmpty (clientSecret options)
          \<or> missingOrEmpty (issuer options))
     \<longrightarrow> (\<forall>evs msg. createAuthPluginRouter sdk options \<noteq> (evs, Inl (Error msg))))"
proof (intro conjI impI allI)
  assume "missingOrEmpty (clientId options) \<or> missingOrEmpty (clientSecret options)
      \<or> missingOrEmpty (issuer options)"
  then show "\<exists>msg. createAuthPluginRouter sdk options = ([], Inl (Error msg))"
    by (auto simp: createAuthPluginRouter_def missingOrEmpty_def split: option.splits)
next
  fix evs msg
  assume present: "\<not> (missingOrEmpty (clientId options) \<or> missingOrEmpty (clientSecret options)
          \<or> missingOrEmpty (issuer options))"
  obtain evs' r where c: "createOpenIdClient sdk options = (evs', r)"
    by (cases "createOpenIdClient sdk options")
  have "r \<noteq> Inl (Error msg)"
    using createOpenIdClient_no_Error [of sdk options evs' msg] c by auto
  with present c show "createAuthPluginRouter sdk options \<noteq> (evs, Inl (Error msg))"
    by (auto simp: createAuthPluginRouter_def missingOrEmpty_def split: option.splits sum.splits)
qed

theorem configuration_error_iff_missing_witness:
  "createAuthPluginRouter sample_sdk (sample_options\<lparr>clientId := None\<rparr>)
     = ([], Inl (Error ''Required client id can't be empty!''))
   \<and> createAuthPluginRouter sample_sdk (sample_options\<lparr>issuer := Some []\<rparr>)
     = ([], Inl (Error
          ''Required issuer url (options.issuer) can't be empty and must be a string!''))
   \<and> (\<forall>evs msg. createAuthPluginRouter sample_sdk sample_options \<noteq> (evs, Inl (Error msg)))"
proof -
  have present: "\<not> (missingOrEmpty (clientId sample_options)
      \<or> missingOrEmpty (clientSecret sample_options) \<or> missingOrEmpty (issuer sample_options))"
    by (simp add: missingOrEmpty_def sample_options_def)
  have missing: "missingOrEmpty (clientId (sample_options\<lparr>clientId := None\<rparr>))"
    by (simp add: missingOrEmpty_def)
  from configuration_error_iff_missing [of sample_options sample_sdk] present
    configuration_error_iff_missing [of "sample_options\<lparr>clientId := None\<rparr>" sample_sdk] missing
  show ?thesis
    by (simp add: createAuthPluginRouter_def sample_options_def)
qed

section \<open>Facts about the handlers\<close>

lemma determineRedirectUrl_spec:
  "determineRedirectUrl sdk req dflt base
     = spec_destination (getAbsoluteUrl sdk) (query req ''redirect'') dflt base"
  by (simp add: determineRedirectUrl_def spec_destination_def Let_def
        split: option.splits qvalue.splits)

lemma determineRedirectUrl_user:
  "determineRedirectUrl sdk (req\<lparr>user := u\<rparr>) dflt base = determineRedirectUrl sdk req dflt base"
  by (simp add: determineRedirectUrl_def)

lemma verify_lacksEmail:
  "lacksEmail profile \<Longrightarrow>
     verify sdk options ts profile
       = ([], Inl (Error ''Cannot locate email address from the user profile.''))"
  by (simp add: verify_def lacksEmail_def Let_def split: option.splits)

lemma verify_Inr:
  assumes "verify sdk options ts profile = (evs, Inr u)"
  shows "authPlugin u =
           Some \<lparr> authPlugin_key = key (authPluginConfig options),
                  tokenSet = Some (TokenSetInstance ts),
                  logoutUrl = (if explicitLogout (authPluginConfig options)
                               then Some (''/auth/plugin/'' @ key (authPluginConfig options) @ ''/logout'')
                               else None) \<rparr>"
  using assms
  by (auto simp: verify_def Let_def split: option.splits if_splits sum.splits)

lemma passport_authenticate_Inr:
  assumes "passport_authenticate sdk options req = (session, evs, Inr u)"
  shows "\<exists>ts profile evs'. exchangeCode sdk req = Inr (ts, profile)
           \<and> verify sdk options ts profile = (evs', Inr u)
           \<and> session = Some u \<and> evs = evs' @ [EstablishSession u]"
  using assms
  by (auto simp: passport_authenticate_def split: sum.splits prod.splits)

lemma get_logout_session:
  "fst (get_logout sdk options client req) = None"
  "fst (snd (get_logout sdk options client req)) = [DestroyMagdaSession]"
  by (simp_all add: get_logout_def destroyMagdaSession_def Let_def)

lemma get_logout_no_tokenSet:
  "sessionTokenSet req = None \<Longrightarrow>
     get_logout sdk options client req
       = (None, [DestroyMagdaSession],
          Redirect (determineRedirectUrl sdk req (authPluginRedirectUrl options)
                      (Some (externalUrl options))))"
  by (simp add: get_logout_def destroyMagdaSession_def Let_def)

lemma get_logout_tokenSet:
  "sessionTokenSet req = Some ts \<Longrightarrow>
     get_logout sdk options client req
       = (None, [DestroyMagdaSession],
          Redirect
            (endSessionUrl sdk client ts
               (getAbsoluteUrl sdk
                  (''/auth/plugin/'' @ key (authPluginConfig options) @ ''/logout/return'')
                  (Some (externalUrl options))
                  (Some [(''redirect'',
                          determineRedirectUrl sdk req (authPluginRedirectUrl options) None)]))))"
  by (simp add: get_logout_def destroyMagdaSession_def Let_def)

lemma sessionTokenSet_no_user: "sessionTokenSet (req\<lparr>user := None\<rparr>) = None"
  by (simp add: sessionTokenSet_def)

section \<open>The redirect destination\<close>

text \<open>
  Claim C1 says that all four endpoints compute the destination by one rule, resolving the
  \<^verbatim>\<open>redirect\<close> parameter (or the configured default) against the external base URL.
  On \<^verbatim>\<open>/logout\<close> with a token set in the session the handler calls
  \<^verbatim>\<open>determineRedirectUrl\<close> without the base URL: for \<^verbatim>\<open>?redirect=/dashboard\<close> the value nested
  in the post-logout callback is \<^verbatim>\<open>/dashboard\<close>, where the rule of the claim gives
  \<^verbatim>\<open>https://example.org/dashboard\<close>.
\<close>

theorem logout_redirect_counterexample:
  "get_logout sample_sdk sample_options sample_client sample_session_request
     = (None, [DestroyMagdaSession],
        Redirect ''https://idp.example/logout?id_token_hint=idt&post_logout_redirect_uri=https://example.org/auth/plugin/okta/logout/return?redirect=/dashboard'')
   \<and> spec_destination (getAbsoluteUrl sample_sdk) (query sample_session_request ''redirect'')
        (authPluginRedirectUrl sample_options) (Some (externalUrl sample_options))
       = ''https://example.org/dashboard''
   \<and> snd (snd (get_logout sample_sdk sample_options sample_client sample_session_request))
       \<noteq> Redirect (endSessionUrl sample_sdk sample_client (TokenSetInstance sample_tokenSet)
            (getAbsoluteUrl sample_sdk ''/auth/plugin/okta/logout/return''
               (Some ''https://example.org'')
               (Some [(''redirect'',
                  spec_destination (getAbsoluteUrl sample_sdk)
                    (query sample_session_request ''redirect'')
                    (authPluginRedirectUrl sample_options)
                    (Some (externalUrl sample_options)))])))"
  by (simp add: get_logout_def destroyMagdaSession_def sessionTokenSet_def
        determineRedirectUrl_def spec_destination_def sample_defs)

text \<open>
  Claim C1, amended. On \<^verbatim>\<open>/\<close>, on \<^verbatim>\<open>/logout\<close> without a token set in the session and on
  \<^verbatim>\<open>/logout/return\<close>, the destination is the \<^verbatim>\<open>redirect\<close> parameter, when it is a non-empty
  string, resolved against the external base URL, and the configured default resolved
  against it otherwise. On \<^verbatim>\<open>/logout\<close> with a token set the same choice is made, but the value
  is passed to \<^verbatim>\<open>getAbsoluteUrl\<close> without a base URL and nested as the \<^verbatim>\<open>redirect\<close> parameter
  of the post-logout callback URL, which is resolved against the external base URL. On
  \<^verbatim>\<open>/return\<close> the destination is the echoed \<^verbatim>\<open>state\<close> parameter.
\<close>

theorem redirect_destination_rule:
  "snd (snd (get_root sdk options req))
     = AuthorizationRedirect STRATEGY_NAME (scopeOf options)
         (spec_destination (getAbsoluteUrl sdk) (query req ''redirect'')
            (authPluginRedirectUrl options) (Some (externalUrl options)))
   \<and> snd (snd (get_logout_return sdk options req))
     = Redirect (spec_destination (getAbsoluteUrl sdk) (query req ''redirect'')
                   (authPluginRedirectUrl options) (Some (externalUrl options)))
   \<and> snd (snd (get_logout sdk options client req))
     = (case sessionTokenSet req of
          None \<Rightarrow>
            Redirect (spec_destination (getAbsoluteUrl sdk) (query req ''redirect'')
                        (authPluginRedirectUrl options) (Some (externalUrl options)))
        | Some ts \<Rightarrow>
            Redirect (endSessionUrl sdk client ts
              (getAbsoluteUrl sdk
                 (''/auth/plugin/'' @ key (authPluginConfig options) @ ''/logout/return'')
                 (Some (externalUrl options))
                 (Some [(''redirect'',
                    spec_destination (getAbsoluteUrl sdk) (query req ''redirect'')
                      (authPluginRedirectUrl options) None)]))))
   \<and> snd (snd (get_return sdk options req))
     = (case snd (snd (passport_authenticate sdk options req)) of
          Inr u \<Rightarrow> RedirectOnSuccess (query req ''state'')
        | Inl e \<Rightarrow> RedirectOnError e (query req ''state''))"
proof (intro conjI)
  show "snd (snd (get_root sdk options req))
     = AuthorizationRedirect STRATEGY_NAME (scopeOf options)
         (spec_destination (getAbsoluteUrl sdk) (query req ''redirect'')
            (authPluginRedirectUrl options) (Some (externalUrl options)))"
    by (simp add: get_root_def determineRedirectUrl_spec)
  show "snd (snd (get_logout_return sdk options req))
     = Redirect (spec_destination (getAbsoluteUrl sdk) (query req ''redirect'')
                   (authPluginRedirectUrl options) (Some (externalUrl options)))"
    by (simp add: get_logout_return_def determineRedirectUrl_spec destroyMagdaSession_def
          split: option.splits)
  show "snd (snd (get_logout sdk options client req))
     = (case sessionTokenSet req of
          None \<Rightarrow>
            Redirect (spec_destination (getAbsoluteUrl sdk) (query req ''redirect'')
                        (authPluginRedirectUrl options) (Some (externalUrl options)))
        | Some ts \<Rightarrow>
            Redirect (endSessionUrl sdk client ts
              (getAbsoluteUrl sdk
                 (''/auth/plugin/'' @ key (authPluginConfig options) @ ''/logout/return'')
                 (Some (externalUrl options))
                 (Some [(''redirect'',
                    spec_destination (getAbsoluteUrl sdk) (query req ''redirect'')
                      (authPluginRedirectUrl options) None)]))))"
    by (cases "sessionTokenSet req")
       (simp_all add: get_logout_no_tokenSet get_logout_tokenSet determineRedirectUrl_spec)
  show "snd (snd (get_return sdk options req))
     = (case snd (snd (passport_authenticate sdk options req)) of
          Inr u \<Rightarrow> RedirectOnSuccess (query req ''state'')
        | Inl e \<Rightarrow> RedirectOnError e (query req ''state''))"
    by (simp add: get_return_def split: prod.splits sum.splits)
qed

theorem redirect_destination_rule_witness:
  "snd (snd (get_root sample_sdk sample_options sample_request))
     = AuthorizationRedirect ''okta-oidc'' ''openid profile email'' ''https://example.org/dashboard''
   \<and> snd (snd (get_logout_return sample_sdk sample_options sample_request))
     = Redirect ''https://example.org/dashboard''
   \<and> snd (snd (get_logout sample_sdk sample_options sample_client sample_request))
     = Redirect ''https://example.org/dashboard''"
  using redirect_destination_rule [of sample_sdk sample_options sample_request sample_client]
  by (simp add: spec_destination_def sessionTokenSet_def scopeOf_def STRATEGY_NAME_def
        DEFAULT_SCOPE_def sample_defs)

section \<open>Completing the login\<close>

text \<open>
  Claim C2. When the claims exchanged on \<^verbatim>\<open>/return\<close> lack a non-empty email, the verify
  callback hands an error to \<^verbatim>\<open>done\<close>; no collaborator is called (neither the user resolver
  nor the session's establishment), the session is left as it was, and the request ends in
  the error redirect.
\<close>

theorem missing_email_terminates:
  assumes "exchangeCode sdk req = Inr (ts, profile)" and "lacksEmail profile"
  shows "verify sdk options ts profile
           = ([], Inl (Error ''Cannot locate email address from the user profile.''))
       \<and> get_return sdk options req
           = (user req, [],
              RedirectOnError (Error ''Cannot locate email address from the user profile.'')
                (query req ''state''))"
  using assms
  by (simp add: get_return_def passport_authenticate_def verify_lacksEmail)

theorem missing_email_terminates_witness:
  "get_return
     (sample_sdk\<lparr>exchangeCode :=
        (\<lambda>req. Inr (sample_tokenSet, Some (sample_claims\<lparr>email := Some []\<rparr>)))\<rparr>)
     sample_options sample_request
   = (None, [],
      RedirectOnError (Error ''Cannot locate email address from the user profile.'')
        (query sample_request ''state''))"
proof -
  have exchanged:
    "exchangeCode
       (sample_sdk\<lparr>exchangeCode :=
          (\<lambda>req. Inr (sample_tokenSet, Some (sample_claims\<lparr>email := Some []\<rparr>)))\<rparr>)
       sample_request
     = Inr (sample_tokenSet, Some (sample_claims\<lparr>email := Some []\<rparr>))"
    by simp
  have lacks: "lacksEmail (Some (sample_claims\<lparr>email := Some []\<rparr>))"
    by (simp add: lacksEmail_def)
  from missing_email_terminates [OF exchanged lacks, of sample_options]
  show ?thesis by (simp add: sample_request_def)
qed

text \<open>
  Claim C3. The \<^verbatim>\<open>state\<close> embedded on \<^verbatim>\<open>/\<close> is the destination of the request; when the
  provider echoes it on \<^verbatim>\<open>/return\<close>, the success redirect (and the error redirect) is made
  with that same value.
\<close>

theorem state_round_trip:
  assumes "snd (snd (get_root sdk options req)) = AuthorizationRedirect n sc st"
      and "query req' ''state'' = Some (QString st)"
  shows "st = determineRedirectUrl sdk req (authPluginRedirectUrl options)
                (Some (externalUrl options))
       \<and> snd (snd (get_return sdk options req'))
           = (case snd (snd (passport_authenticate sdk options req')) of
                Inr u \<Rightarrow> RedirectOnSuccess (Some (QString st))
              | Inl e \<Rightarrow> RedirectOnError e (Some (QString st)))"
  using assms
  by (simp add: get_root_def get_return_def split: prod.splits sum.splits)

theorem state_round_trip_witness:
  "snd (snd (get_root sample_sdk sample_options sample_request))
     = AuthorizationRedirect ''okta-oidc'' ''openid profile email'' ''https://example.org/dashboard''
   \<and> snd (snd (get_return sample_sdk sample_options
        \<lparr> query = [''state'' \<mapsto> QString ''https://example.org/dashboard''], user = None \<rparr>))
     = RedirectOnSuccess (Some (QString ''https://example.org/dashboard''))"
proof -
  have initiated: "snd (snd (get_root sample_sdk sample_options sample_request))
     = AuthorizationRedirect ''okta-oidc'' ''openid profile email'' ''https://example.org/dashboard''"
    by (simp add: get_root_def determineRedirectUrl_def scopeOf_def STRATEGY_NAME_def
          DEFAULT_SCOPE_def sample_defs)
  have echoed:
    "query \<lparr> query = [''state'' \<mapsto> QString ''https://example.org/dashboard''], user = None \<rparr>
       ''state'' = Some (QString ''https://example.org/dashboard'')"
    by simp
  have authenticated:
    "snd (snd (passport_authenticate sample_sdk sample_options
        \<lparr> query = [''state'' \<mapsto> QString ''https://example.org/dashboard''], user = None \<rparr>))
     = Inr sample_user"
    by (simp add: passport_authenticate_def verify_def sample_defs)
  from state_round_trip [OF initiated echoed]
  have "snd (snd (get_return sample_sdk sample_options
        \<lparr> query = [''state'' \<mapsto> QString ''https://example.org/dashboard''], user = None \<rparr>))
     = (case snd (snd (passport_authenticate sample_sdk sample_options
          \<lparr> query = [''state'' \<mapsto> QString ''https://example.org/dashboard''], user = None \<rparr>)) of
          Inr u \<Rightarrow> RedirectOnSuccess (Some (QString ''https://example.org/dashboard''))
        | Inl e \<Rightarrow> RedirectOnError e (Some (QString ''https://example.org/dashboard'')))"
    by (rule conjunct2)
  with authenticated initiated show ?thesis by simp
qed

text \<open>
  Claim C5. When the login completes, the user record that the session is established with
  carries a logout URL in its provider marker if and only if \<^verbatim>\<open>explicitLogout\<close> is set.
\<close>

theorem logout_url_iff_explicit_logout:
  assumes "passport_authenticate sdk options req = (session, evs, Inr u)"
  shows "session = Some u \<and> evs \<noteq> [] \<and> last evs = EstablishSession u
       \<and> map_option logoutUrl (authPlugin u)
           = Some (if explicitLogout (authPluginConfig options)
                   then Some (''/auth/plugin/'' @ key (authPluginConfig options) @ ''/logout'')
                   else None)"
proof -
  from passport_authenticate_Inr [OF assms] obtain ts profile evs'
    where v: "verify sdk options ts profile = (evs', Inr u)"
      and s: "session = Some u" and e: "evs = evs' @ [EstablishSession u]"
    by blast
  from verify_Inr [OF v] s e show ?thesis by simp
qed

theorem logout_url_iff_explicit_logout_witness:
  "passport_authenticate sample_sdk sample_options sample_request
     = (Some sample_user,
        [CreateOrGetUserToken
           \<lparr> profile_id = Some ''00u1'', provider = ''okta'', displayName = Some ''Ada L'',
             familyName = Some ''L'', givenName = Some ''Ada'', emails = [''a@b.com''] \<rparr> ''okta'',
         EstablishSession sample_user],
        Inr sample_user)
   \<and> map_option logoutUrl (authPlugin sample_user) = Some (Some ''/auth/plugin/okta/logout'')
   \<and> passport_authenticate sample_sdk
         (sample_options\<lparr>authPluginConfig := \<lparr> key = ''okta'', explicitLogout = False \<rparr>\<rparr>)
         sample_request
     = (Some sample_user_implicit,
        [CreateOrGetUserToken
           \<lparr> profile_id = Some ''00u1'', provider = ''okta'', displayName = Some ''Ada L'',
             familyName = Some ''L'', givenName = Some ''Ada'', emails = [''a@b.com''] \<rparr> ''okta'',
         EstablishSession sample_user_implicit],
        Inr sample_user_implicit)
   \<and> map_option logoutUrl (authPlugin sample_user_implicit) = Some None"
proof -
  have explicit: "passport_authenticate sample_sdk sample_options sample_request
     = (Some sample_user,
        [CreateOrGetUserToken
           \<lparr> profile_id = Some ''00u1'', provider = ''okta'', displayName = Some ''Ada L'',
             familyName = Some ''L'', givenName = Some ''Ada'', emails = [''a@b.com''] \<rparr> ''okta'',
         EstablishSession sample_user],
        Inr sample_user)"
    by (simp add: passport_authenticate_def verify_def sample_defs)
  have implicit: "passport_authenticate sample_sdk
         (sample_options\<lparr>authPluginConfig := \<lparr> key = ''okta'', explicitLogout = False \<rparr>\<rparr>)
         sample_request
     = (Some sample_user_implicit,
        [CreateOrGetUserToken
           \<lparr> profile_id = Some ''00u1'', provider = ''okta'', displayName = Some ''Ada L'',
             familyName = Some ''L'', givenName = Some ''Ada'', emails = [''a@b.com''] \<rparr> ''okta'',
         EstablishSession sample_user_implicit],
        Inr sample_user_implicit)"
    by (simp add: passport_authenticate_def verify_def sample_defs)
  from logout_url_iff_explicit_logout [OF explicit] logout_url_iff_explicit_logout [OF implicit]
    explicit implicit
  show ?thesis
    by (simp add: sample_options_def)
qed

section \<open>Logging out\<close>

text \<open>
  Claim C4. \<^verbatim>\<open>/logout\<close> always destroys the session first and leaves none. A request whose
  session holds no token set (or that has no session) is answered by the direct redirect to
  the destination, and so is every request that follows a logout: two logouts in a row
  without a session in between give the same direct redirect. The last part states the
  condition on the fields of the request: no user, a user without provider marker, or a
  marker without token set.
\<close>

theorem logout_idempotent:
  "fst (get_logout sdk options client req) = None
   \<and> fst (snd (get_logout sdk options client req)) = [DestroyMagdaSession]
   \<and> get_logout sdk options client (req\<lparr>user := fst (get_logout sdk options client req)\<rparr>)
       = (None, [DestroyMagdaSession],
          Redirect (determineRedirectUrl sdk req (authPluginRedirectUrl options)
                      (Some (externalUrl options))))
   \<and> (sessionTokenSet req = None \<longrightarrow>
        get_logout sdk options client req
          = (None, [DestroyMagdaSession],
             Redirect (determineRedirectUrl sdk req (authPluginRedirectUrl options)
                         (Some (externalUrl options)))))
   \<and> (user req = None
        \<or> (\<exists>u. user req = Some u
              \<and> (authPlugin u = None \<or> (\<exists>ap. authPlugin u = Some ap \<and> tokenSet ap = None)))
       \<longrightarrow>
        get_logout sdk options client req
          = (None, [DestroyMagdaSession],
             Redirect (determineRedirectUrl sdk req (authPluginRedirectUrl options)
                         (Some (externalUrl options)))))"
proof -
  have raw: "sessionTokenSet req = None"
    if "user req = None
        \<or> (\<exists>u. user req = Some u
              \<and> (authPlugin u = None \<or> (\<exists>ap. authPlugin u = Some ap \<and> tokenSet ap = None)))"
    using that by (auto simp: sessionTokenSet_def)
  show ?thesis
    using raw
    by (simp add: get_logout_session get_logout_no_tokenSet sessionTokenSet_no_user
          determineRedirectUrl_user)
qed

theorem logout_idempotent_witness:
  "user sample_request = None
   \<and> sessionTokenSet sample_request = None
   \<and> get_logout sample_sdk sample_options sample_client sample_request
       = (None, [DestroyMagdaSession], Redirect ''https://example.org/dashboard'')
   \<and> get_logout sample_sdk sample_options sample_client
        (sample_request\<lparr>user :=
           fst (get_logout sample_sdk sample_options sample_client sample_request)\<rparr>)
       = (None, [DestroyMagdaSession], Redirect ''https://example.org/dashboard'')"
proof -
  have no_token: "sessionTokenSet sample_request = None"
    by (simp add: sessionTokenSet_def sample_request_def)
  have dest: "determineRedirectUrl sample_sdk sample_request
                (authPluginRedirectUrl sample_options) (Some (externalUrl sample_options))
              = ''https://example.org/dashboard''"
    by (simp add: determineRedirectUrl_def sample_defs)
  have no_user: "user sample_request = None"
    by (simp add: sample_request_def)
  from logout_idempotent [of sample_sdk sample_options sample_client sample_request]
    no_token no_user dest
  show ?thesis by (simp add: get_logout_session)
qed

text \<open>
  The token set of \<^verbatim>\<open>/logout\<close>, on the fields of the request: the value under
  \<^verbatim>\<open>req.user.authPlugin.tokenSet\<close> is read before the session is destroyed and is handed
  whole to \<^verbatim>\<open>client.endSessionUrl\<close> as \<^verbatim>\<open>id_token_hint\<close>, for every library behind it; no
  session is left when the redirect is sent.
\<close>

lemma get_logout_passes_session_value:
  assumes "user req = Some u" and "authPlugin u = Some ap" and "tokenSet ap = Some v"
  shows "get_logout sdk options client req
           = (None, [DestroyMagdaSession],
              Redirect
                (endSessionUrl sdk client v
                   (getAbsoluteUrl sdk
                      (''/auth/plugin/'' @ key (authPluginConfig options) @ ''/logout/return'')
                      (Some (externalUrl options))
                      (Some [(''redirect'',
                              determineRedirectUrl sdk req (authPluginRedirectUrl options) None)]))))"
proof -
  from assms have "sessionTokenSet req = Some v"
    by (simp add: sessionTokenSet_def)
  then show ?thesis by (rule get_logout_tokenSet)
qed

text \<open>
  Claim C9. On \<^verbatim>\<open>/logout\<close> the token set is read from the session before the session is
  destroyed, so that the end-session redirect carries it as the id-token hint. The handler
  reads the value first and passes it on (\<open>get_logout_passes_session_value\<close>), but it passes
  the session's value as it is: a user record that comes back from the session store holds a
  plain object, not a \<^verbatim>\<open>TokenSet\<close> instance, the library takes the id token only out of an
  instance, and the redirect of a session that held the id token \<^verbatim>\<open>idt\<close> carries an empty
  hint.
\<close>

theorem logout_stored_session_hint:
  "user sample_stored_request = Some sample_stored_user
   \<and> map_option tokenSet (authPlugin sample_stored_user) = Some (Some (PlainObject sample_tokenSet))
   \<and> id_token sample_tokenSet = ''idt''
   \<and> get_logout sample_sdk sample_options sample_client sample_stored_request
       = (None, [DestroyMagdaSession],
          Redirect ''https://idp.example/logout?id_token_hint=&post_logout_redirect_uri=https://example.org/auth/plugin/okta/logout/return?redirect=/dashboard'')"
  by (simp add: get_logout_def destroyMagdaSession_def sessionTokenSet_def
        determineRedirectUrl_def sample_defs)

section \<open>The redirect URI of the client\<close>

text \<open>
  Claim C6 says that the redirect URI is
  \<^verbatim>\<open><externalUrl>/auth/login/plugin/<pluginKey>/return\<close> for the configured plugin key. The
  path segment is the literal \<^verbatim>\<open>okta\<close>: with the key \<^verbatim>\<open>corp-sso\<close> the client is still bound
  to \<^verbatim>\<open>https://example.org/auth/login/plugin/okta/return\<close>.
\<close>

theorem redirect_uri_counterexample:
  "createOpenIdClient sample_sdk
     (sample_options\<lparr>authPluginConfig := \<lparr> key = ''corp-sso'', explicitLogout = True \<rparr>\<rparr>)
     = ([Discover ''https://dev-1.okta.com/oauth2/default/.well-known/openid-configuration''],
        Inr sample_client)
   \<and> redirect_uris sample_client = [''https://example.org/auth/login/plugin/okta/return'']
   \<and> redirect_uris sample_client \<noteq> [''https://example.org/auth/login/plugin/corp-sso/return'']"
  by (simp add: createOpenIdClient_def discoveryUrl_def clockTolerance_def
        OKTA_DEFAULT_MAX_CLOCK_SKEW_def sample_defs)

text \<open>
  Claim C6, amended. The client of the router is bound to the single redirect URI
  \<^verbatim>\<open>getAbsoluteUrl("/okta/return", getAbsoluteUrl("/auth/login/plugin", externalUrl))\<close>, with
  the literal segment \<^verbatim>\<open>okta\<close> whatever the plugin key is. It is chosen when the client is
  built, from the external URL alone: no request and no other plugin configuration enters.
\<close>

theorem redirect_uri_fixed:
  assumes "createAuthPluginRouter sdk options = (evs, Inr router)"
  shows "redirect_uris (router_client router)
           = [getAbsoluteUrl sdk ''/okta/return''
                (Some (getAbsoluteUrl sdk ''/auth/login/plugin'' (Some (externalUrl options)) None))
                None]
       \<and> createOpenIdClient sdk (options\<lparr>authPluginConfig := cfg\<rparr>)
           = createOpenIdClient sdk options"
proof -
  from assms obtain evs' where "createOpenIdClient sdk options = (evs', Inr (router_client router))"
    by (auto simp: createAuthPluginRouter_def split: if_splits prod.splits sum.splits)
  from createOpenIdClient_Inr(3) [OF this]
  have uri: "redirect_uris (router_client router)
           = [getAbsoluteUrl sdk ''/okta/return''
                (Some (getAbsoluteUrl sdk ''/auth/login/plugin'' (Some (externalUrl options)) None))
                None]" .
  have "createOpenIdClient sdk (options\<lparr>authPluginConfig := cfg\<rparr>)
           = createOpenIdClient sdk options"
    by (simp add: createOpenIdClient_def clockTolerance_def split: option.splits sum.splits)
  with uri show ?thesis by simp
qed

theorem redirect_uri_fixed_witness:
  "createAuthPluginRouter sample_sdk sample_options
     = ([Discover ''https://dev-1.okta.com/oauth2/default/.well-known/openid-configuration'',
         PassportUse ''okta-oidc'', RouterGet ''/'', RouterGet ''/return'',
         RouterGet ''/logout'', RouterGet ''/logout/return''],
        Inr \<lparr> router_client = sample_client,
              routes = [''/'', ''/return'', ''/logout'', ''/logout/return''] \<rparr>)
   \<and> redirect_uris sample_client = [''https://example.org/auth/login/plugin/okta/return'']"
proof -
  have built: "createAuthPluginRouter sample_sdk sample_options
     = ([Discover ''https://dev-1.okta.com/oauth2/default/.well-known/openid-configuration'',
         PassportUse ''okta-oidc'', RouterGet ''/'', RouterGet ''/return'',
         RouterGet ''/logout'', RouterGet ''/logout/return''],
        Inr \<lparr> router_client = sample_client,
              routes = [''/'', ''/return'', ''/logout'', ''/logout/return''] \<rparr>)"
    by (simp add: createAuthPluginRouter_def createOpenIdClient_def discoveryUrl_def
          clockTolerance_def OKTA_DEFAULT_MAX_CLOCK_SKEW_def STRATEGY_NAME_def sample_defs)
  from redirect_uri_fixed [OF built] built show ?thesis
    by (simp add: sample_defs)
qed

end
